theory Spec2Isabelle
  imports Complex_Main "HOL-Library.AList" "HOL-Library.Char_ord" "HOL-Library.List_Lexorder"
begin

section \<open>Values and errors\<close>

text \<open>
  The simulator \<^verbatim>\<open>bin/tiny_qucsator.py\<close> and the result parser of
  \<^verbatim>\<open>backend/main.py\<close> are embedded as HOL functions. Python's \<^verbatim>\<open>float\<close> is
  modelled by \<^typ>\<open>real\<close>: every arithmetic operation is exact, and the values
  \<^verbatim>\<open>inf\<close> and \<^verbatim>\<open>nan\<close> do not exist. Python's \<^verbatim>\<open>str\<close> is modelled by
  \<^typ>\<open>string\<close>, read as ASCII text. Every exception the source can raise is a value of
  \<open>py_error\<close>, returned as \<open>Inl\<close>.
\<close>

datatype py_error = IndexError | KeyError | ValueError | ZeroDivisionError

type_synonym matrix = "real list list"
type_synonym vector = "real list"

definition py_div :: "real \<Rightarrow> real \<Rightarrow> py_error + real" where
  "py_div a b = (if b = 0 then Inl ZeroDivisionError else Inr (a / b))"

definition nth_py :: "'a list \<Rightarrow> nat \<Rightarrow> py_error + 'a" where
  "nth_py xs i = (if i < length xs then Inr (xs ! i) else Inl IndexError)"

section \<open>The linear solver\<close>

text \<open>The tolerance \<^verbatim>\<open>1e-12\<close> of both pivot tests.\<close>

definition tol :: real where
  "tol = 1 / 10 ^ 12"

text \<open>
  \<^verbatim>\<open>for k in range(i, size): G[j][k] -= factor * G[i][k]\<close>
\<close>

fun elim_cols :: "nat list \<Rightarrow> real \<Rightarrow> nat \<Rightarrow> nat \<Rightarrow> matrix \<Rightarrow> matrix" where
  "elim_cols [] factor i j G = G"
| "elim_cols (k # ks) factor i j G =
     elim_cols ks factor i j (G[j := (G ! j)[k := G ! j ! k - factor * G ! i ! k]])"

text \<open>
  \<^verbatim>\<open>for j in range(i + 1, size):
      factor = G[j][i] / pivot
      I[j] -= factor * I[i]
      for k in range(i, size): ...\<close>
\<close>

fun elim_rows :: "nat list \<Rightarrow> real \<Rightarrow> nat \<Rightarrow> nat \<Rightarrow> matrix \<times> vector \<Rightarrow> py_error + matrix \<times> vector" where
  "elim_rows [] pivot i sz (G, I) = Inr (G, I)"
| "elim_rows (j # js) pivot i sz (G, I) =
     (case py_div (G ! j ! i) pivot of
        Inl e \<Rightarrow> Inl e
      | Inr factor \<Rightarrow>
          elim_rows js pivot i sz
            (elim_cols [i..<sz] factor i j G, I[j := I ! j - factor * I ! i]))"

text \<open>
  The forward loop \<^verbatim>\<open>for i in range(size)\<close>: a pivot with
  \<^verbatim>\<open>abs(pivot) < 1e-12\<close> is skipped.
\<close>

fun forward :: "nat list \<Rightarrow> nat \<Rightarrow> matrix \<times> vector \<Rightarrow> py_error + matrix \<times> vector" where
  "forward [] sz (G, I) = Inr (G, I)"
| "forward (i # is) sz (G, I) =
     (let pivot = G ! i ! i in
      if \<bar>pivot\<bar> < tol then forward is sz (G, I)
      else (case elim_rows [i + 1..<sz] pivot i sz (G, I) of
              Inl e \<Rightarrow> Inl e
            | Inr GI \<Rightarrow> forward is sz GI))"

text \<open>
  \<^verbatim>\<open>sum(G[i][j] * x[j] for j in range(i + 1, size))\<close>
\<close>

definition sum_val :: "nat \<Rightarrow> nat \<Rightarrow> matrix \<Rightarrow> vector \<Rightarrow> real" where
  "sum_val i sz G x = sum_list (map (\<lambda>j. G ! i ! j * x ! j) [i + 1..<sz])"

text \<open>
  The backward loop \<^verbatim>\<open>for i in range(size - 1, -1, -1)\<close>: \<^verbatim>\<open>x[i]\<close> is assigned
  only if \<^verbatim>\<open>abs(G[i][i]) > 1e-12\<close>, otherwise it keeps its initial \<^verbatim>\<open>0.0\<close>.
\<close>

fun backward :: "nat list \<Rightarrow> nat \<Rightarrow> matrix \<Rightarrow> vector \<Rightarrow> vector \<Rightarrow> py_error + vector" where
  "backward [] sz G I x = Inr x"
| "backward (i # is) sz G I x =
     (if \<bar>G ! i ! i\<bar> > tol
      then (case py_div (I ! i - sum_val i sz G x) (G ! i ! i) of
              Inl e \<Rightarrow> Inl e
            | Inr v \<Rightarrow> backward is sz G I (x[i := v]))
      else backward is sz G I x)"

text \<open>The solver part of \<^verbatim>\<open>solve\<close>: \<^verbatim>\<open>x = [0.0] * size\<close>, forward, backward.\<close>

definition gauss :: "nat \<Rightarrow> matrix \<Rightarrow> vector \<Rightarrow> py_error + vector" where
  "gauss sz G I =
     (case forward [0..<sz] sz (G, I) of
        Inl e \<Rightarrow> Inl e
      | Inr (G', I') \<Rightarrow> backward (rev [0..<sz]) sz G' I' (replicate sz 0))"


section \<open>Text primitives\<close>

text \<open>
  The whitespace of \<^verbatim>\<open>str.strip\<close>, \<^verbatim>\<open>str.split\<close> and the regular
  expression class \<^verbatim>\<open>\s\<close>, on ASCII text: tab, line feed, vertical tab, form feed,
  carriage return, the separators \<^verbatim>\<open>0x1c\<close> to \<^verbatim>\<open>0x1f\<close>, and space.
\<close>

definition is_space :: "char \<Rightarrow> bool" where
  "is_space c = (c \<in> set [CHR 0x09, CHR 0x0A, CHR 0x0B, CHR 0x0C, CHR 0x0D,
                            CHR 0x1C, CHR 0x1D, CHR 0x1E, CHR 0x1F, CHR 0x20])"

text \<open>The line boundaries of \<^verbatim>\<open>str.splitlines\<close>, on ASCII text.\<close>

definition is_linebreak :: "char \<Rightarrow> bool" where
  "is_linebreak c = (c \<in> set [CHR 0x0A, CHR 0x0B, CHR 0x0C, CHR 0x0D,
                                CHR 0x1C, CHR 0x1D, CHR 0x1E])"

text \<open>The class \<^verbatim>\<open>\w\<close> on ASCII text: letters, digits and the underscore.\<close>

definition is_word :: "char \<Rightarrow> bool" where
  "is_word c =
     (let n = (of_char c :: int)
      in (48 \<le> n \<and> n \<le> 57) \<or> (65 \<le> n \<and> n \<le> 90) \<or> (97 \<le> n \<and> n \<le> 122) \<or> n = 95)"

definition is_digit :: "char \<Rightarrow> bool" where
  "is_digit c = (let n = (of_char c :: int) in 48 \<le> n \<and> n \<le> 57)"

definition dquote :: char where
  "dquote = CHR 0x22"

text \<open>
  \<^verbatim>\<open>str.splitlines()\<close>: a carriage return followed by a line feed is one boundary,
  and a boundary at the very end opens no further line.
\<close>

fun splitlines_acc :: "string \<Rightarrow> string \<Rightarrow> string list" where
  "splitlines_acc cur [] = (if cur = [] then [] else [cur])"
| "splitlines_acc cur [c] = (if is_linebreak c then [cur] else [cur @ [c]])"
| "splitlines_acc cur (c # d # cs) =
     (if c = CHR 0x0D \<and> d = CHR 0x0A then cur # splitlines_acc [] cs
      else if is_linebreak c then cur # splitlines_acc [] (d # cs)
      else splitlines_acc (cur @ [c]) (d # cs))"

definition splitlines :: "string \<Rightarrow> string list" where
  "splitlines s = splitlines_acc [] s"

text \<open>\<^verbatim>\<open>str.strip()\<close>\<close>

definition strip :: "string \<Rightarrow> string" where
  "strip s = rev (dropWhile is_space (rev (dropWhile is_space s)))"

text \<open>\<^verbatim>\<open>str.split()\<close>: the maximal runs of characters that are not whitespace.\<close>

fun split_acc :: "string \<Rightarrow> string \<Rightarrow> string list" where
  "split_acc cur [] = (if cur = [] then [] else [cur])"
| "split_acc cur (c # cs) =
     (if is_space c then (if cur = [] then split_acc [] cs else cur # split_acc [] cs)
      else split_acc (cur @ [c]) cs)"

definition split_ws :: "string \<Rightarrow> string list" where
  "split_ws s = split_acc [] s"

text \<open>\<^verbatim>\<open>str.split(sep)\<close> for a separator of one character.\<close>

fun split_on :: "char \<Rightarrow> string \<Rightarrow> string list" where
  "split_on sep [] = [[]]"
| "split_on sep (c # cs) =
     (if c = sep then [] # split_on sep cs
      else (case split_on sep cs of [] \<Rightarrow> [[c]] | p # ps \<Rightarrow> (c # p) # ps))"

text \<open>\<^verbatim>\<open>str.startswith(p)\<close>\<close>

definition startswith :: "string \<Rightarrow> string \<Rightarrow> bool" where
  "startswith s p = (take (length p) s = p)"

text \<open>\<^verbatim>\<open>d.get(k, default)\<close> on a dictionary kept as an association list.\<close>

definition dict_get :: "(string \<times> string) list \<Rightarrow> string \<Rightarrow> string \<Rightarrow> string" where
  "dict_get d k dflt = (case map_of d k of None \<Rightarrow> dflt | Some v \<Rightarrow> v)"

section \<open>The parameter pattern\<close>

text \<open>
  \<^verbatim>\<open>re.finditer(r'(\w+)="([^"]+)"', line)\<close>. An attempt at one position: the key is
  the maximal run of word characters (a shorter run is followed by a word character, never
  by \<^verbatim>\<open>=\<close>), then \<^verbatim>\<open>="\<close>, then the value is the maximal run of characters other
  than the quote (a shorter run is not followed by a quote), not empty, then the closing
  quote. The result is the pair and the text after the match.
\<close>

definition match_param :: "string \<Rightarrow> ((string \<times> string) \<times> string) option" where
  "match_param s =
     (let key = takeWhile is_word s; r1 = dropWhile is_word s
      in if key = [] then None
         else (case r1 of
                 a # b # r2 \<Rightarrow>
                   if a = CHR ''='' \<and> b = dquote then
                     (let val = takeWhile (\<lambda>c. c \<noteq> dquote) r2;
                          r3 = dropWhile (\<lambda>c. c \<noteq> dquote) r2
                      in if val = [] then None
                         else (case r3 of [] \<Rightarrow> None | q # r4 \<Rightarrow> Some ((key, val), r4)))
                   else None
               | _ \<Rightarrow> None))"

lemma match_param_shorter: "match_param s = Some (kv, r) \<Longrightarrow> length r < length s"
proof -
  assume m: "match_param s = Some (kv, r)"
  have l1: "length (dropWhile is_word s) \<le> length s"
    by (rule length_dropWhile_le)
  show ?thesis
  proof (cases "dropWhile is_word s")
    case Nil
    with m show ?thesis by (simp add: match_param_def Let_def split: if_splits)
  next
    case (Cons a t)
    note c1 = Cons
    show ?thesis
    proof (cases t)
      case Nil
      with m c1 show ?thesis by (simp add: match_param_def Let_def split: if_splits)
    next
      case (Cons b r2)
      have l2: "length (dropWhile (\<lambda>c. c \<noteq> dquote) r2) \<le> length r2"
        by (rule length_dropWhile_le)
      from m c1 Cons obtain q where "dropWhile (\<lambda>c. c \<noteq> dquote) r2 = q # r"
        by (auto simp: match_param_def Let_def split: if_splits list.splits)
      with l2 have "length r < length r2" by simp
      with l1 c1 Cons show ?thesis by simp
    qed
  qed
qed

text \<open>The scan of \<^verbatim>\<open>finditer\<close>: leftmost matches, not overlapping.\<close>

function finditer_params :: "string \<Rightarrow> (string \<times> string) list" where
  "finditer_params [] = []"
| "finditer_params (c # cs) =
     (case match_param (c # cs) of
        None \<Rightarrow> finditer_params cs
      | Some (kv, r) \<Rightarrow> kv # finditer_params r)"
  by pat_completeness auto
termination
  by (relation "measure length") (auto dest: match_param_shorter)

text \<open>
  \<^verbatim>\<open>params = {}; for m in re.finditer(...): params[m.group(1)] = m.group(2)\<close>
\<close>

definition parse_params :: "string \<Rightarrow> (string \<times> string) list" where
  "parse_params line = foldl (\<lambda>d (k, v). AList.update k v d) [] (finditer_params line)"

section \<open>Numbers read from text\<close>

text \<open>
  \<^verbatim>\<open>float(s)\<close> and \<^verbatim>\<open>int(s)\<close> follow the grammar of the language reference:
  \<^verbatim>\<open>digitpart ::= digit (["_"] digit)*\<close>,
  \<^verbatim>\<open>number ::= [digitpart] "." digitpart | digitpart ["."]\<close>,
  \<^verbatim>\<open>exponent ::= ("e" | "E") [sign] digitpart\<close>,
  \<^verbatim>\<open>floatvalue ::= [sign] number [exponent]\<close>, with surrounding whitespace removed.
  The value is the exact decimal value. The spellings of infinity and not-a-number, which
  \<^verbatim>\<open>float\<close> accepts and which have no real value, are outside this model.
\<close>

fun digitpart :: "string \<Rightarrow> string option" where
  "digitpart [] = None"
| "digitpart [c] = (if is_digit c then Some [c] else None)"
| "digitpart (c # d # cs) =
     (if \<not> is_digit c then None
      else if d = CHR ''_'' then map_option (Cons c) (digitpart cs)
      else map_option (Cons c) (digitpart (d # cs)))"

definition digit_val :: "char \<Rightarrow> int" where
  "digit_val c = of_char c - 48"

definition dec_value :: "string \<Rightarrow> int" where
  "dec_value ds = foldl (\<lambda>n c. 10 * n + digit_val c) 0 ds"

definition split_first :: "(char \<Rightarrow> bool) \<Rightarrow> string \<Rightarrow> string \<times> string option" where
  "split_first P s =
     (takeWhile (\<lambda>c. \<not> P c) s,
      case dropWhile (\<lambda>c. \<not> P c) s of [] \<Rightarrow> None | c # r \<Rightarrow> Some r)"

definition parse_sign :: "string \<Rightarrow> bool \<times> string" where
  "parse_sign s =
     (case s of
        [] \<Rightarrow> (False, [])
      | c # r \<Rightarrow> if c = CHR ''-'' then (True, r) else if c = CHR ''+'' then (False, r) else (False, s))"

definition parse_number :: "string \<Rightarrow> real option" where
  "parse_number s =
     (case split_first (\<lambda>c. c = CHR ''.'') s of
        (ip, None) \<Rightarrow> map_option (\<lambda>ds. real_of_int (dec_value ds)) (digitpart ip)
      | (ip, Some fp) \<Rightarrow>
          if ip = [] \<and> fp = [] then None
          else (case (if ip = [] then Some [] else digitpart ip,
                      if fp = [] then Some [] else digitpart fp) of
                  (Some i, Some f) \<Rightarrow>
                    Some (real_of_int (dec_value i) + real_of_int (dec_value f) / 10 ^ length f)
                | _ \<Rightarrow> None))"

definition parse_exponent :: "string \<Rightarrow> int option" where
  "parse_exponent s =
     (case parse_sign s of
        (neg, r) \<Rightarrow>
          map_option (\<lambda>ds. if neg then - dec_value ds else dec_value ds)
            (digitpart r))"

definition scale10 :: "real \<Rightarrow> int \<Rightarrow> real" where
  "scale10 v e = (if 0 \<le> e then v * 10 ^ nat e else v / 10 ^ nat (- e))"

definition py_float :: "string \<Rightarrow> py_error + real" where
  "py_float s =
     (case parse_sign (strip s) of
        (neg, r) \<Rightarrow>
          (case split_first (\<lambda>c. c = CHR ''e'' \<or> c = CHR ''E'') r of
             (m, None) \<Rightarrow>
               (case parse_number m of
                  None \<Rightarrow> Inl ValueError
                | Some v \<Rightarrow> Inr (if neg then - v else v))
           | (m, Some ex) \<Rightarrow>
               (case (parse_number m, parse_exponent ex) of
                  (Some v, Some e) \<Rightarrow> Inr (scale10 (if neg then - v else v) e)
                | _ \<Rightarrow> Inl ValueError)))"

definition py_int :: "string \<Rightarrow> py_error + int" where
  "py_int s =
     (case parse_sign (strip s) of
        (neg, r) \<Rightarrow>
          (case digitpart r of
             None \<Rightarrow> Inl ValueError
           | Some ds \<Rightarrow> Inr (if neg then - dec_value ds else dec_value ds)))"

section \<open>The netlist parser\<close>

text \<open>
  A component is the dictionary \<^verbatim>\<open>{'type', 'name', 'nodes', 'params'}\<close>; its
  parameters are a dictionary kept as an association list in insertion order.
\<close>

record component =
  c_type :: string
  c_name :: string
  c_nodes :: "string list"
  c_params :: "(string \<times> string) list"

text \<open>
  The state of the loop over the lines: the set \<^verbatim>\<open>nodes\<close> (a list without
  repetition, its order is never observed since it is sorted before use), the list
  \<^verbatim>\<open>components\<close> and \<^verbatim>\<open>sim_cmd\<close>.
\<close>

record parse_state =
  ps_nodes :: "string list"
  ps_components :: "component list"
  ps_sim_cmd :: "(string \<times> string) list option"

definition parse_line :: "parse_state \<Rightarrow> string \<Rightarrow> py_error + parse_state" where
  "parse_line st raw =
     (let line = strip raw
      in if line = [] \<or> startswith line ''#'' then Inr st
         else
           (let params = parse_params line;
                base_parts = split_ws line
            in case nth_py base_parts 0 of
                 Inl e \<Rightarrow> Inl e
               | Inr type_id \<Rightarrow>
                   if startswith type_id ''.DC'' then Inr (st\<lparr>ps_sim_cmd := Some params\<rparr>)
                   else if CHR '':'' \<notin> set type_id then Inr st
                   else
                     (case nth_py (split_on CHR '':'' type_id) 1 of
                        Inl e \<Rightarrow> Inl e
                      | Inr name \<Rightarrow>
                          (case nth_py (split_on CHR '':'' type_id) 0 of
                             Inl e \<Rightarrow> Inl e
                           | Inr ctype \<Rightarrow>
                               (let node_list =
                                      takeWhile (\<lambda>p. CHR ''='' \<notin> set p) (tl base_parts)
                                in Inr (st\<lparr>ps_nodes :=
                                             foldl (\<lambda>ns p. List.insert p ns) (ps_nodes st) node_list,
                                           ps_components :=
                                             ps_components st @
                                               [\<lparr>c_type = ctype, c_name = name,
                                                 c_nodes = node_list, c_params = params\<rparr>]\<rparr>))))))"

fun parse_lines :: "parse_state \<Rightarrow> string list \<Rightarrow> py_error + parse_state" where
  "parse_lines st [] = Inr st"
| "parse_lines st (l # ls) =
     (case parse_line st l of Inl e \<Rightarrow> Inl e | Inr st' \<Rightarrow> parse_lines st' ls)"

definition parse_netlist :: "string \<Rightarrow> py_error + parse_state" where
  "parse_netlist netlist_str =
     parse_lines \<lparr>ps_nodes = [], ps_components = [], ps_sim_cmd = None\<rparr>
       (splitlines netlist_str)"

section \<open>The node index\<close>

text \<open>
  \<^verbatim>\<open>sorted_nodes = sorted(list(nodes))\<close>, without \<^verbatim>\<open>'0'\<close> and \<^verbatim>\<open>'gnd'\<close>;
  \<^verbatim>\<open>node_map = {n: i for i, n in enumerate(sorted_nodes)}\<close>, kept in insertion order.
\<close>

definition build_node_map :: "string list \<Rightarrow> (string \<times> nat) list" where
  "build_node_map nodes =
     (let sorted_nodes = sort nodes;
          s1 = (if ''0'' \<in> set sorted_nodes then remove1 ''0'' sorted_nodes else sorted_nodes);
          s2 = (if ''gnd'' \<in> set s1 then remove1 ''gnd'' s1 else s1)
      in zip s2 [0..<length s2])"

section \<open>The assembler\<close>

text \<open>
  \<^verbatim>\<open>vsources.index(c)\<close> is the position of the first element equal to \<^verbatim>\<open>c\<close>.
  Equality of dictionaries compares contents: two components are equal when type, name and
  node list agree and the parameter dictionaries hold the same keys with the same values.
\<close>

definition dict_eq :: "(string \<times> string) list \<Rightarrow> (string \<times> string) list \<Rightarrow> bool" where
  "dict_eq p q = list_all (\<lambda>k. map_of p k = map_of q k) (map fst p @ map fst q)"

definition comp_eq :: "component \<Rightarrow> component \<Rightarrow> bool" where
  "comp_eq c d =
     (c_type c = c_type d \<and> c_name c = c_name d \<and> c_nodes c = c_nodes d \<and>
      dict_eq (c_params c) (c_params d))"

fun index_of :: "component list \<Rightarrow> component \<Rightarrow> py_error + nat" where
  "index_of [] c = Inl ValueError"
| "index_of (d # ds) c =
     (if comp_eq d c then Inr 0
      else (case index_of ds c of Inl e \<Rightarrow> Inl e | Inr k \<Rightarrow> Inr (Suc k)))"

text \<open>\<^verbatim>\<open>G[i][j] += v\<close>\<close>

definition add_at :: "matrix \<Rightarrow> nat \<Rightarrow> nat \<Rightarrow> real \<Rightarrow> matrix" where
  "add_at G i j v = G[i := (G ! i)[j := G ! i ! j + v]]"

text \<open>
  \<^verbatim>\<open>nis\<close>: \<^verbatim>\<open>-1\<close> for a reference node, \<^verbatim>\<open>node_map[n]\<close> otherwise.
\<close>

definition node_index :: "(string \<times> nat) list \<Rightarrow> string \<Rightarrow> py_error + int" where
  "node_index node_map n =
     (if n = ''0'' \<or> n = ''gnd'' then Inr (- 1)
      else (case map_of node_map n of None \<Rightarrow> Inl KeyError | Some i \<Rightarrow> Inr (int i)))"

fun node_indices :: "(string \<times> nat) list \<Rightarrow> string list \<Rightarrow> py_error + int list" where
  "node_indices node_map [] = Inr []"
| "node_indices node_map (n # ns) =
     (case node_index node_map n of
        Inl e \<Rightarrow> Inl e
      | Inr i \<Rightarrow>
          (case node_indices node_map ns of Inl e \<Rightarrow> Inl e | Inr is \<Rightarrow> Inr (i # is)))"

text \<open>The stamp of a resistor.\<close>

definition stamp_R :: "(string \<times> string) list \<Rightarrow> int list \<Rightarrow> matrix \<Rightarrow> py_error + matrix" where
  "stamp_R params nis G =
     (case py_float (dict_get params ''R'' ''1000'') of
        Inl e \<Rightarrow> Inl e
      | Inr val \<Rightarrow>
          (case py_div 1 val of
             Inl e \<Rightarrow> Inl e
           | Inr g_val \<Rightarrow>
               (case nth_py nis 0 of
                  Inl e \<Rightarrow> Inl e
                | Inr n1 \<Rightarrow>
                    (case nth_py nis 1 of
                       Inl e \<Rightarrow> Inl e
                     | Inr n2 \<Rightarrow>
                         (let G1 = (if n1 \<ge> 0 then add_at G (nat n1) (nat n1) g_val else G);
                              G2 = (if n2 \<ge> 0 then add_at G1 (nat n2) (nat n2) g_val else G1);
                              G3 = (if n1 \<ge> 0 \<and> n2 \<ge> 0
                                    then add_at (add_at G2 (nat n1) (nat n2) (- g_val))
                                           (nat n2) (nat n1) (- g_val)
                                    else G2)
                          in Inr G3)))))"

text \<open>The stamp of a voltage source.\<close>

definition stamp_Vdc ::
  "nat \<Rightarrow> component list \<Rightarrow> component \<Rightarrow> int list \<Rightarrow> matrix \<times> vector \<Rightarrow> py_error + matrix \<times> vector"
where
  "stamp_Vdc N vsources c nis GI =
     (case GI of
        (G, I) \<Rightarrow>
          (case index_of vsources c of
             Inl e \<Rightarrow> Inl e
           | Inr k \<Rightarrow>
               (let v_idx = N + k
                in case py_float (dict_get (c_params c) ''U'' ''1'') of
                     Inl e \<Rightarrow> Inl e
                   | Inr val \<Rightarrow>
                       (case nth_py nis 0 of
                          Inl e \<Rightarrow> Inl e
                        | Inr n1 \<Rightarrow>
                            (case nth_py nis 1 of
                               Inl e \<Rightarrow> Inl e
                             | Inr n2 \<Rightarrow>
                                 (let G1 = (if n1 \<ge> 0
                                            then add_at (add_at G (nat n1) v_idx 1) v_idx (nat n1) 1
                                            else G);
                                      G2 = (if n2 \<ge> 0
                                            then add_at (add_at G1 (nat n2) v_idx (- 1))
                                                   v_idx (nat n2) (- 1)
                                            else G1)
                                  in Inr (G2, I[v_idx := I ! v_idx + val])))))))"

text \<open>The body of \<^verbatim>\<open>for c in components\<close>; other types stamp nothing.\<close>

definition stamp ::
  "nat \<Rightarrow> component list \<Rightarrow> (string \<times> nat) list \<Rightarrow> matrix \<times> vector \<Rightarrow> component \<Rightarrow>
   py_error + matrix \<times> vector"
where
  "stamp N vsources node_map GI c =
     (case node_indices node_map (c_nodes c) of
        Inl e \<Rightarrow> Inl e
      | Inr nis \<Rightarrow>
          if c_type c = ''R'' then
            (case stamp_R (c_params c) nis (fst GI) of
               Inl e \<Rightarrow> Inl e
             | Inr G' \<Rightarrow> Inr (G', snd GI))
          else if c_type c = ''Vdc'' then stamp_Vdc N vsources c nis GI
          else Inr GI)"

fun fill_stamps ::
  "nat \<Rightarrow> component list \<Rightarrow> (string \<times> nat) list \<Rightarrow> matrix \<times> vector \<Rightarrow> component list \<Rightarrow>
   py_error + matrix \<times> vector"
where
  "fill_stamps N vsources node_map GI [] = Inr GI"
| "fill_stamps N vsources node_map GI (c # cs) =
     (case stamp N vsources node_map GI c of
        Inl e \<Rightarrow> Inl e
      | Inr GI' \<Rightarrow> fill_stamps N vsources node_map GI' cs)"

text \<open>
  The system of a parsed netlist: the node map, \<^verbatim>\<open>N\<close>, the size \<^verbatim>\<open>N + M\<close>, and the
  stamped \<^verbatim>\<open>G\<close> and \<^verbatim>\<open>I\<close>.
\<close>

definition vsources_of :: "component list \<Rightarrow> component list" where
  "vsources_of components = filter (\<lambda>c. c_type c = ''Vdc'') components"

definition assemble ::
  "string list \<Rightarrow> component list \<Rightarrow> py_error + (string \<times> nat) list \<times> nat \<times> matrix \<times> vector"
where
  "assemble nodes components =
     (let node_map = build_node_map nodes;
          N = length node_map;
          vsources = vsources_of components;
          M = length vsources;
          sz = N + M
      in case fill_stamps N vsources node_map
                (replicate sz (replicate sz 0), replicate sz 0) components of
           Inl e \<Rightarrow> Inl e
         | Inr (G, I) \<Rightarrow> Inr (node_map, sz, G, I))"



section \<open>solve\<close>

text \<open>The first half of \<^verbatim>\<open>solve\<close>: parse, index, assemble.\<close>

definition build_system ::
  "string \<Rightarrow> py_error + (string \<times> nat) list \<times> nat \<times> matrix \<times> vector"
where
  "build_system netlist_str =
     (case parse_netlist netlist_str of
        Inl e \<Rightarrow> Inl e
      | Inr st \<Rightarrow> assemble (ps_nodes st) (ps_components st))"

definition solve :: "string \<Rightarrow> py_error + (string \<times> nat) list \<times> vector" where
  "solve netlist_str =
     (case build_system netlist_str of
        Inl e \<Rightarrow> Inl e
      | Inr (node_map, sz, G, I) \<Rightarrow>
          (case gauss sz G I of
             Inl e \<Rightarrow> Inl e
           | Inr x \<Rightarrow> Inr (node_map, x)))"

text \<open>The voltage \<^verbatim>\<open>soln[node_map[node]]\<close> that a result holds for a node.\<close>

definition node_voltage ::
  "py_error + (string \<times> nat) list \<times> vector \<Rightarrow> string \<Rightarrow> real option"
where
  "node_voltage res node =
     (case res of
        Inl e \<Rightarrow> None
      | Inr (node_map, x) \<Rightarrow>
          (case map_of node_map node of
             None \<Rightarrow> None
           | Some idx \<Rightarrow> (case nth_py x idx of Inl e \<Rightarrow> None | Inr v \<Rightarrow> Some v)))"





section \<open>Numbers written as text\<close>

definition digit_char :: "int \<Rightarrow> char" where
  "digit_char d = char_of (48 + d)"

text \<open>\<^verbatim>\<open>str(n)\<close> for an integer, as the f-string \<^verbatim>\<open>{points}\<close> writes it.\<close>

function show_digits :: "int \<Rightarrow> string" where
  "show_digits n =
     (if n < 10 then [digit_char n] else show_digits (n div 10) @ [digit_char (n mod 10)])"
  by pat_completeness auto
termination
  by (relation "measure nat") auto

declare show_digits.simps [simp del]

definition py_str_int :: "int \<Rightarrow> string" where
  "py_str_int n = (if n < 0 then CHR ''-'' # show_digits (- n) else show_digits n)"

text \<open>
  The format \<^verbatim>\<open>:e\<close>: a sign, one digit, a point, six digits, \<^verbatim>\<open>e\<close>, the sign of
  the exponent and at least two digits of it. The mantissa is the value scaled into
  \<open>[1, 10)\<close> and rounded to six decimals, ties to even; a mantissa that rounds up to
  ten moves to the next exponent.
\<close>

fun fixed_digits :: "nat \<Rightarrow> int \<Rightarrow> string" where
  "fixed_digits 0 n = []"
| "fixed_digits (Suc k) n = fixed_digits k (n div 10) @ [digit_char (n mod 10)]"

function exp10_up :: "real \<Rightarrow> int" where
  "exp10_up a = (if a < 10 then 0 else 1 + exp10_up (a / 10))"
  by pat_completeness auto
termination
proof (relation "measure (\<lambda>a. nat \<lfloor>a\<rfloor>)")
  show "wf (measure (\<lambda>a::real. nat \<lfloor>a\<rfloor>))" by simp
next
  fix a :: real
  assume "\<not> a < 10"
  then have a: "10 \<le> a" by simp
  then have "a / 10 + 1 \<le> a" by simp
  then have "\<lfloor>a / 10 + 1\<rfloor> \<le> \<lfloor>a\<rfloor>" by (rule floor_mono)
  then have "\<lfloor>a / 10\<rfloor> + 1 \<le> \<lfloor>a\<rfloor>" by simp
  moreover have "0 \<le> \<lfloor>a / 10\<rfloor>" using a by simp
  ultimately have "nat \<lfloor>a / 10\<rfloor> < nat \<lfloor>a\<rfloor>" by linarith
  then show "(a / 10, a) \<in> measure (\<lambda>a. nat \<lfloor>a\<rfloor>)" by simp
qed

declare exp10_up.simps [simp del]

function exp10_down :: "real \<Rightarrow> int" where
  "exp10_down a = (if a \<le> 0 \<or> 1 \<le> a then 0 else exp10_down (a * 10) - 1)"
  by pat_completeness auto
termination
proof (relation "measure (\<lambda>a. nat \<lceil>1 / a\<rceil>)")
  show "wf (measure (\<lambda>a::real. nat \<lceil>1 / a\<rceil>))" by simp
next
  fix a :: real
  assume "\<not> (a \<le> 0 \<or> 1 \<le> a)"
  then have a: "0 < a" "a < 1" by simp_all
  then have b: "1 < 1 / a" by simp
  define n where "n = \<lceil>1 / a\<rceil>"
  have c: "1 / (a * 10) = (1 / a) / 10" by simp
  have n2: "2 \<le> n" unfolding n_def using b by linarith
  have yn: "1 / a \<le> of_int n" unfolding n_def by (rule le_of_int_ceiling)
  have "(1 / a) / 10 \<le> of_int n / 10" using yn by simp
  also have "\<dots> \<le> of_int n - 1" using n2 by simp
  finally have "1 / (a * 10) \<le> of_int (n - 1)"
    unfolding c by simp
  then have "\<lceil>1 / (a * 10)\<rceil> \<le> n - 1"
    by (simp only: ceiling_le_iff)
  moreover have "0 < \<lceil>1 / (a * 10)\<rceil>" using a by simp
  ultimately have "nat \<lceil>1 / (a * 10)\<rceil> < nat \<lceil>1 / a\<rceil>"
    unfolding n_def by linarith
  then show "(a * 10, a) \<in> measure (\<lambda>a. nat \<lceil>1 / a\<rceil>)" by simp
qed

declare exp10_down.simps [simp del]

text \<open>The decimal exponent \<open>e\<close> of a positive value: \<open>10 ^ e \<le> a < 10 ^ (e + 1)\<close>.\<close>

definition exp10 :: "real \<Rightarrow> int" where
  "exp10 a = (if 1 \<le> a then exp10_up a else exp10_down a)"

definition round_half_even :: "real \<Rightarrow> int" where
  "round_half_even r =
     (let f = \<lfloor>r\<rfloor>; d = r - of_int f
      in if d < 1 / 2 then f else if 1 / 2 < d then f + 1 else if even f then f else f + 1)"

text \<open>Mantissa (seven digits, as an integer) and exponent of a positive value.\<close>

definition sci :: "real \<Rightarrow> int \<times> int" where
  "sci a =
     (let e0 = exp10 a;
          m0 = round_half_even (scale10 a (6 - e0))
      in if 10 ^ 7 \<le> m0 then (m0 div 10, e0 + 1) else (m0, e0))"

definition mantissa_text :: "int \<Rightarrow> string" where
  "mantissa_text m = take 1 (fixed_digits 7 m) @ ''.'' @ drop 1 (fixed_digits 7 m)"

definition exponent_text :: "int \<Rightarrow> string" where
  "exponent_text e =
     (if e < 0 then ''-'' else ''+'') @ (if \<bar>e\<bar> < 10 then ''0'' else []) @ show_digits \<bar>e\<bar>"

definition fmt_e :: "real \<Rightarrow> string" where
  "fmt_e v =
     (if v = 0 then ''0.000000e+00''
      else (case sci \<bar>v\<bar> of
              (m, e) \<Rightarrow>
                (if v < 0 then ''-'' else []) @ mantissa_text m @ ''e'' @ exponent_text e))"

text \<open>
  The number that the text written for a value stands for: the value rounded to seven
  significant digits.
\<close>

definition read_back :: "real \<Rightarrow> real" where
  "read_back v =
     (if v = 0 then 0
      else (case sci \<bar>v\<bar> of
              (m, e) \<Rightarrow> (if v < 0 then - 1 else 1) * scale10 (of_int m / 10 ^ 6) e))"

section \<open>main: the sweep directive and the encoder\<close>

text \<open>
  \<^verbatim>\<open>sim_params = {}
  for line in netlist.splitlines():
      if line.strip().startswith('.DC'):
          for m in re.finditer(...): sim_params[m.group(1)] = m.group(2)\<close>
\<close>

definition sim_params_line :: "(string \<times> string) list \<Rightarrow> string \<Rightarrow> (string \<times> string) list" where
  "sim_params_line sim_params line =
     (if startswith (strip line) ''.DC''
      then foldl (\<lambda>d (k, v). AList.update k v d) sim_params (finditer_params line)
      else sim_params)"

definition main_sim_params :: "string \<Rightarrow> (string \<times> string) list" where
  "main_sim_params netlist = foldl sim_params_line [] (splitlines netlist)"

text \<open>\<^verbatim>\<open>for i in range(points): f.write(f"{start + i*step:e}\n")\<close>\<close>

fun write_indep :: "real \<Rightarrow> real \<Rightarrow> nat list \<Rightarrow> string" where
  "write_indep start step [] = []"
| "write_indep start step (i # is) =
     fmt_e (start + real i * step) @ ''\<newline>'' @ write_indep start step is"

text \<open>\<^verbatim>\<open>for _ in range(points): f.write(f"{val:e}\n")\<close>\<close>

fun write_const :: "real \<Rightarrow> nat list \<Rightarrow> string" where
  "write_const val [] = []"
| "write_const val (i # is) = fmt_e val @ ''\<newline>'' @ write_const val is"

text \<open>\<^verbatim>\<open>for node, idx in node_map.items(): ...\<close>\<close>

fun write_deps :: "string \<Rightarrow> int \<Rightarrow> vector \<Rightarrow> (string \<times> nat) list \<Rightarrow> py_error + string" where
  "write_deps param points soln [] = Inr []"
| "write_deps param points soln ((node, idx) # items) =
     (case nth_py soln idx of
        Inl e \<Rightarrow> Inl e
      | Inr val \<Rightarrow>
          (case write_deps param points soln items of
             Inl e \<Rightarrow> Inl e
           | Inr rest \<Rightarrow>
               Inr (''<dep '' @ node @ '' '' @ param @ ''>\<newline>'' @
                    write_const val [0..<nat points] @ ''</dep>\<newline>'' @ rest)))"

definition encode ::
  "(string \<times> nat) list \<Rightarrow> vector \<Rightarrow> (string \<times> string) list \<Rightarrow> py_error + string"
where
  "encode node_map soln sim_params =
     (case py_float (dict_get sim_params ''Start'' ''0'') of
        Inl e \<Rightarrow> Inl e
      | Inr start \<Rightarrow>
          (case py_float (dict_get sim_params ''Stop'' ''10'') of
             Inl e \<Rightarrow> Inl e
           | Inr stop \<Rightarrow>
               (case py_int (dict_get sim_params ''Points'' ''2'') of
                  Inl e \<Rightarrow> Inl e
                | Inr points \<Rightarrow>
                    (let param = dict_get sim_params ''Param'' ''sweep'';
                         step = (if points > 1 then (stop - start) / of_int (points - 1) else 0)
                     in case write_deps param points soln node_map of
                          Inl e \<Rightarrow> Inl e
                        | Inr deps \<Rightarrow>
                            Inr (''<indep '' @ param @ '' '' @ py_str_int points @ ''>\<newline>'' @
                                 write_indep start step [0..<nat points] @
                                 ''</indep>\<newline>'' @ deps)))))"



text \<open>\<^verbatim>\<open>main\<close>, from the text of the netlist to the text of the result file.\<close>

definition run :: "string \<Rightarrow> py_error + string" where
  "run netlist =
     (case solve netlist of
        Inl e \<Rightarrow> Inl e
      | Inr (node_map, soln) \<Rightarrow> encode node_map soln (main_sim_params netlist))"

section \<open>The result decoder\<close>

text \<open>
  \<^verbatim>\<open>block_re = re.compile(r"<((?:in)?dep)\s+(\w+)\s+(\w+)>(.*?)</\1>", re.DOTALL)\<close>.
  An attempt at one position. Every greedy run is maximal (a shorter run of whitespace is
  followed by whitespace, a shorter run of word characters by a word character, so neither
  is followed by what the pattern asks next), and the lazy \<^verbatim>\<open>(.*?)\<close> ends at the first
  closing tag of the same kind.
\<close>

definition match_kind :: "string \<Rightarrow> (string \<times> string) option" where
  "match_kind s =
     (if startswith s ''indep'' then Some (''indep'', drop 5 s)
      else if startswith s ''dep'' then Some (''dep'', drop 3 s)
      else None)"

definition match_spaces :: "string \<Rightarrow> string option" where
  "match_spaces s = (if takeWhile is_space s = [] then None else Some (dropWhile is_space s))"

definition match_word :: "string \<Rightarrow> (string \<times> string) option" where
  "match_word s =
     (if takeWhile is_word s = [] then None
      else Some (takeWhile is_word s, dropWhile is_word s))"

fun find_close :: "string \<Rightarrow> string \<Rightarrow> (string \<times> string) option" where
  "find_close tag [] = None"
| "find_close tag (c # cs) =
     (if startswith (c # cs) tag then Some ([], drop (length tag) (c # cs))
      else (case find_close tag cs of
              None \<Rightarrow> None
            | Some (d, r) \<Rightarrow> Some (c # d, r)))"

text \<open>The pattern after the kind: \<^verbatim>\<open>\s+(\w+)\s+(\w+)>(.*?)</\1>\<close>.\<close>

definition match_header ::
  "string \<Rightarrow> string \<Rightarrow> ((string \<times> string \<times> string \<times> string) \<times> string) option"
where
  "match_header kind s2 =
     (case match_spaces s2 of
        None \<Rightarrow> None
      | Some s3 \<Rightarrow>
          (case match_word s3 of
             None \<Rightarrow> None
           | Some (name, s4) \<Rightarrow>
               (case match_spaces s4 of
                  None \<Rightarrow> None
                | Some s5 \<Rightarrow>
                    (case match_word s5 of
                       None \<Rightarrow> None
                     | Some (type_name, s6) \<Rightarrow>
                         (case s6 of
                            [] \<Rightarrow> None
                          | g # s7 \<Rightarrow>
                              if g \<noteq> CHR ''>'' then None
                              else
                                (case find_close (''</'' @ kind @ ''>'') s7 of
                                   None \<Rightarrow> None
                                 | Some (data, r) \<Rightarrow>
                                     Some ((kind, name, type_name, data), r)))))))"

definition match_block :: "string \<Rightarrow> ((string \<times> string \<times> string \<times> string) \<times> string) option" where
  "match_block s =
     (case s of
        [] \<Rightarrow> None
      | c # s1 \<Rightarrow>
          if c \<noteq> CHR ''<'' then None
          else
            (case match_kind s1 of
               None \<Rightarrow> None
             | Some (kind, s2) \<Rightarrow> match_header kind s2))"

lemma find_close_shorter: "find_close tag s = Some (d, r) \<Longrightarrow> length r \<le> length s"
  by (induction s arbitrary: d) (auto split: if_splits option.splits)

lemma match_block_shorter: "match_block s = Some (b, r) \<Longrightarrow> length r < length s"
proof -
  assume m: "match_block s = Some (b, r)"
  from m obtain c s1 where s: "s = c # s1"
    by (cases s) (auto simp: match_block_def)
  from m s obtain kind s2 where k: "match_kind s1 = Some (kind, s2)"
    by (auto simp: match_block_def split: if_splits option.splits)
  from m s k obtain s3 where w3: "match_spaces s2 = Some s3"
    by (auto simp: match_block_def match_header_def split: if_splits option.splits)
  from m s k w3 obtain name s4 where w4: "match_word s3 = Some (name, s4)"
    by (auto simp: match_block_def match_header_def split: if_splits option.splits)
  from m s k w3 w4 obtain s5 where w5: "match_spaces s4 = Some s5"
    by (auto simp: match_block_def match_header_def split: if_splits option.splits)
  from m s k w3 w4 w5 obtain ty s6 where w6: "match_word s5 = Some (ty, s6)"
    by (auto simp: match_block_def match_header_def split: if_splits option.splits)
  from m s k w3 w4 w5 w6 obtain g s7 d where w7: "s6 = g # s7" "find_close (''</'' @ kind @ ''>'') s7 = Some (d, r)"
    by (auto simp: match_block_def match_header_def split: if_splits option.splits list.splits)
  have "length s2 \<le> length s1" using k by (auto simp: match_kind_def split: if_splits)
  moreover have "length s3 \<le> length s2"
    using w3 length_dropWhile_le [of is_space s2] by (auto simp: match_spaces_def split: if_splits)
  moreover have "length s4 \<le> length s3"
    using w4 length_dropWhile_le [of is_word s3] by (auto simp: match_word_def split: if_splits)
  moreover have "length s5 \<le> length s4"
    using w5 length_dropWhile_le [of is_space s4] by (auto simp: match_spaces_def split: if_splits)
  moreover have "length s6 \<le> length s5"
    using w6 length_dropWhile_le [of is_word s5] by (auto simp: match_word_def split: if_splits)
  moreover have "length r \<le> length s7" using w7(2) by (rule find_close_shorter)
  ultimately show ?thesis using s w7(1) by simp
qed

text \<open>The scan of \<^verbatim>\<open>block_re.finditer(content)\<close>.\<close>

function finditer_blocks :: "string \<Rightarrow> (string \<times> string \<times> string \<times> string) list" where
  "finditer_blocks [] = []"
| "finditer_blocks (c # cs) =
     (case match_block (c # cs) of
        None \<Rightarrow> finditer_blocks cs
      | Some (b, r) \<Rightarrow> b # finditer_blocks r)"
  by pat_completeness auto
termination
  by (relation "measure length") (auto dest: match_block_shorter)

text \<open>
  \<^verbatim>\<open>for line in data.strip().split():
      try: values.append(float(line))
      except ValueError: pass\<close>
\<close>

fun parse_values :: "string list \<Rightarrow> real list" where
  "parse_values [] = []"
| "parse_values (line # lines) =
     (case py_float line of
        Inl e \<Rightarrow> parse_values lines
      | Inr v \<Rightarrow> v # parse_values lines)"

text \<open>
  The loop over the matches: \<^verbatim>\<open>results[name] = values\<close>. The file is read before, and
  a missing file is answered before any parsing; \<open>parse_qucs_dat\<close> starts from the content.
\<close>

text \<open>The name and the data of a match: groups 2 and 4.\<close>

definition block_name :: "string \<times> string \<times> string \<times> string \<Rightarrow> string" where
  "block_name b = fst (snd b)"

definition block_data :: "string \<times> string \<times> string \<times> string \<Rightarrow> string" where
  "block_data b = snd (snd (snd b))"

definition block_values :: "string \<Rightarrow> real list" where
  "block_values data = parse_values (split_ws (strip data))"

definition store_block ::
  "(string \<times> real list) list \<Rightarrow> string \<times> string \<times> string \<times> string \<Rightarrow> (string \<times> real list) list"
where
  "store_block results b =
     (case b of
        (kind, name, type_name, data) \<Rightarrow> AList.update name (block_values data) results)"

definition parse_qucs_dat :: "string \<Rightarrow> (string \<times> real list) list" where
  "parse_qucs_dat content = foldl store_block [] (finditer_blocks content)"

section \<open>Netlists used as examples\<close>

definition quoted :: "string \<Rightarrow> string" where
  "quoted s = dquote # s @ [dquote]"

text \<open>A 5 V source from \<^verbatim>\<open>n1\<close> to the reference, a resistor of 1000 from \<^verbatim>\<open>n1\<close> to \<^verbatim>\<open>n2\<close>.\<close>

definition netlist_source_resistor :: string where
  "netlist_source_resistor =
     ''Vdc:V1 n1 0 U='' @ quoted ''5'' @ ''\<newline>'' @
     ''R:R1 n1 n2 R='' @ quoted ''1000''"

definition netlist_resistor_source :: string where
  "netlist_resistor_source =
     ''R:R1 n1 n2 R='' @ quoted ''1000'' @ ''\<newline>'' @
     ''Vdc:V1 n1 0 U='' @ quoted ''5''"

text \<open>The same voltage source line twice, and two sources that differ in their name.\<close>

definition netlist_twin_sources :: string where
  "netlist_twin_sources =
     ''Vdc:V1 n1 0 U='' @ quoted ''5'' @ ''\<newline>'' @
     ''Vdc:V1 n1 0 U='' @ quoted ''5''"

definition netlist_two_sources :: string where
  "netlist_two_sources =
     ''Vdc:V1 n1 0 U='' @ quoted ''5'' @ ''\<newline>'' @
     ''Vdc:V2 n1 0 U='' @ quoted ''5''"

text \<open>Two sweep directives; the second one names only \<^verbatim>\<open>Stop\<close>.\<close>

definition netlist_two_sweeps :: string where
  "netlist_two_sweeps =
     ''.DC Start='' @ quoted ''1'' @ '' Points='' @ quoted ''5'' @ ''\<newline>'' @
     ''.DC Stop='' @ quoted ''3''"




text \<open>A node whose name is the default name of the sweep parameter.\<close>

definition netlist_node_named_sweep :: string where
  "netlist_node_named_sweep =
     ''Vdc:V1 sweep 0 U='' @ quoted ''5'' @ ''\<newline>'' @
     ''R:R1 sweep 0 R='' @ quoted ''1000''"





section \<open>The hand-solved circuit\<close>

text \<open>
  C1, as stated: on the netlist of a 5 V source between \<^verbatim>\<open>n1\<close> and \<^verbatim>\<open>0\<close> and a
  resistor of 1000 between \<^verbatim>\<open>n1\<close> and \<^verbatim>\<open>n2\<close>, the solution holds 5 at \<^verbatim>\<open>n1\<close> and 5
  at \<^verbatim>\<open>n2\<close>. This fails: the value at \<^verbatim>\<open>n2\<close> is not 5.
\<close>

theorem floating_node_not_five:
  "\<not> (node_voltage (solve netlist_source_resistor) ''n1'' = Some 5 \<and>
      node_voltage (solve netlist_source_resistor) ''n2'' = Some 5)"
  unfolding netlist_source_resistor_def quoted_def by code_simp

text \<open>
  C1, amended: on that netlist, in either order of its two lines, \<^verbatim>\<open>solve\<close> returns the
  node map \<^verbatim>\<open>{n1: 0, n2: 1}\<close> and the solution \<^verbatim>\<open>[5, 0, -0.005]\<close>: 5 at \<^verbatim>\<open>n1\<close> and 0 at
  \<^verbatim>\<open>n2\<close>, whose pivot is zero once the column of \<^verbatim>\<open>n1\<close> is eliminated.
\<close>

theorem floating_node_solution:
  "solve netlist_source_resistor = Inr ([(''n1'', 0), (''n2'', 1)], [5, 0, - (1 / 200)]) \<and>
   solve netlist_resistor_source = Inr ([(''n1'', 0), (''n2'', 1)], [5, 0, - (1 / 200)]) \<and>
   node_voltage (solve netlist_source_resistor) ''n1'' = Some 5 \<and>
   node_voltage (solve netlist_source_resistor) ''n2'' = Some 0"
  unfolding netlist_source_resistor_def netlist_resistor_source_def quoted_def by code_simp

section \<open>The auxiliary unknown of a voltage source\<close>

text \<open>
  C3, evaluated where it fails: two identical \<^verbatim>\<open>Vdc\<close> lines give a system of size 3
  (\<^verbatim>\<open>N = 1\<close>, \<^verbatim>\<open>M = 2\<close>), and both sources stamp row and column 1: the entries are 2 and
  \<^verbatim>\<open>I[1]\<close> is 10, while row and column 2 stay zero. Two sources that differ in their name
  stamp rows 1 and 2.
\<close>

theorem twin_sources_share_row:
  "build_system netlist_twin_sources =
     Inr ([(''n1'', 0)], 3, [[0, 2, 0], [2, 0, 0], [0, 0, 0]], [0, 10, 0]) \<and>
   build_system netlist_two_sources =
     Inr ([(''n1'', 0)], 3, [[0, 1, 1], [1, 0, 0], [1, 0, 0]], [0, 5, 5])"
  unfolding netlist_twin_sources_def netlist_two_sources_def quoted_def by code_simp

section \<open>Several sweep directives\<close>

text \<open>
  C5, evaluated where it fails: after \<^verbatim>\<open>.DC Start="1" Points="5"\<close> and \<^verbatim>\<open>.DC Stop="3"\<close>
  the parser of \<^verbatim>\<open>solve\<close> holds the parameters of the last line only, but the
  dictionary that \<^verbatim>\<open>main\<close> reads again and encodes from keeps \<^verbatim>\<open>Start\<close> and \<^verbatim>\<open>Points\<close>
  of the first line: the output has 5 points from 1 to 3, not 2 points from 0 to 3.
\<close>

theorem two_sweeps_are_merged:
  "parse_netlist netlist_two_sweeps =
     Inr \<lparr>ps_nodes = [], ps_components = [], ps_sim_cmd = Some [(''Stop'', ''3'')]\<rparr> \<and>
   main_sim_params netlist_two_sweeps = [(''Start'', ''1''), (''Points'', ''5''), (''Stop'', ''3'')] \<and>
   run netlist_two_sweeps =
     Inr (''<indep sweep 5>\<newline>'' @
          ''1.000000e+00\<newline>1.500000e+00\<newline>2.000000e+00\<newline>2.500000e+00\<newline>3.000000e+00\<newline>'' @
          ''</indep>\<newline>'')"
  unfolding netlist_two_sweeps_def quoted_def by code_simp

section \<open>The solver on singular rows\<close>










section \<open>Symmetry of the assembled matrix\<close>














section \<open>Parameters with an empty value\<close>



lemma is_word_eq [simp]: "\<not> is_word CHR ''=''"
  by (simp add: is_word_def)

lemma is_word_dquote [simp]: "\<not> is_word dquote"
  by (simp add: is_word_def dquote_def)







section \<open>The decoder is keyed by name\<close>

lemma map_of_store_block:
  "map_of (store_block results b) name =
     (if block_name b = name then Some (block_values (block_data b)) else map_of results name)"
  by (cases b) (simp add: store_block_def block_name_def block_data_def update_conv')

lemma map_of_foldl_store_block:
  "map_of (foldl store_block results bs) name =
     (if filter (\<lambda>b. block_name b = name) bs = [] then map_of results name
      else Some (block_values (block_data (last (filter (\<lambda>b. block_name b = name) bs)))))"
  by (induction bs rule: rev_induct) (simp_all add: map_of_store_block)

text \<open>
  C10: the result of the decoder at a name is the value sequence of the last matched block
  of that name, whatever the kinds of the blocks, and nothing if no block has it. For a
  node called \<^verbatim>\<open>sweep\<close> and the default sweep parameter, the encoder writes an
  \<^verbatim>\<open>indep\<close> and a \<^verbatim>\<open>dep\<close> block of that name, and the decoder keeps the values of the
  \<^verbatim>\<open>dep\<close> block only.
\<close>

theorem later_block_overwrites:
  "map_of (parse_qucs_dat content) name =
     (if filter (\<lambda>b. block_name b = name) (finditer_blocks content) = [] then None
      else Some (block_values (block_data
                   (last (filter (\<lambda>b. block_name b = name) (finditer_blocks content)))))) \<and>
   run netlist_node_named_sweep =
     Inr (''<indep sweep 2>\<newline>0.000000e+00\<newline>1.000000e+01\<newline></indep>\<newline>'' @
          ''<dep sweep sweep>\<newline>5.000000e+00\<newline>5.000000e+00\<newline></dep>\<newline>'') \<and>
   finditer_blocks
     (''<indep sweep 2>\<newline>0.000000e+00\<newline>1.000000e+01\<newline></indep>\<newline>'' @
      ''<dep sweep sweep>\<newline>5.000000e+00\<newline>5.000000e+00\<newline></dep>\<newline>'') =
     [(''indep'', ''sweep'', ''2'', ''\<newline>0.000000e+00\<newline>1.000000e+01\<newline>''),
      (''dep'', ''sweep'', ''sweep'', ''\<newline>5.000000e+00\<newline>5.000000e+00\<newline>'')] \<and>
   parse_qucs_dat
     (''<indep sweep 2>\<newline>0.000000e+00\<newline>1.000000e+01\<newline></indep>\<newline>'' @
      ''<dep sweep sweep>\<newline>5.000000e+00\<newline>5.000000e+00\<newline></dep>\<newline>'') =
     [(''sweep'', [5, 5])]"
proof -
  have a: "map_of (parse_qucs_dat content) name =
     (if filter (\<lambda>b. block_name b = name) (finditer_blocks content) = [] then None
      else Some (block_values (block_data
                   (last (filter (\<lambda>b. block_name b = name) (finditer_blocks content))))))"
    unfolding parse_qucs_dat_def by (simp add: map_of_foldl_store_block)
  have b: "run netlist_node_named_sweep =
     Inr (''<indep sweep 2>\<newline>0.000000e+00\<newline>1.000000e+01\<newline></indep>\<newline>'' @
          ''<dep sweep sweep>\<newline>5.000000e+00\<newline>5.000000e+00\<newline></dep>\<newline>'')"
    unfolding netlist_node_named_sweep_def quoted_def by code_simp
  have c: "finditer_blocks
     (''<indep sweep 2>\<newline>0.000000e+00\<newline>1.000000e+01\<newline></indep>\<newline>'' @
      ''<dep sweep sweep>\<newline>5.000000e+00\<newline>5.000000e+00\<newline></dep>\<newline>'') =
     [(''indep'', ''sweep'', ''2'', ''\<newline>0.000000e+00\<newline>1.000000e+01\<newline>''),
      (''dep'', ''sweep'', ''sweep'', ''\<newline>5.000000e+00\<newline>5.000000e+00\<newline>'')]"
    by code_simp
  have d: "parse_qucs_dat
     (''<indep sweep 2>\<newline>0.000000e+00\<newline>1.000000e+01\<newline></indep>\<newline>'' @
      ''<dep sweep sweep>\<newline>5.000000e+00\<newline>5.000000e+00\<newline></dep>\<newline>'') =
     [(''sweep'', [5, 5])]"
    by code_simp
  from a b c d show ?thesis by blast
qed

section \<open>The encoded result\<close>













section \<open>When the pipeline returns\<close>


































end
